theory Spec2Isabelle
  imports Complex_Main "HOL-Library.Word"
begin

section \<open>Decimal arithmetic used by the packet package\<close>

text \<open>
  \<^verbatim>\<open>packet.go\<close> computes every amount with \<^verbatim>\<open>github.com/shopspring/decimal\<close>. A
  \<^verbatim>\<open>Decimal\<close> there is a pair of an arbitrary-precision integer \<^verbatim>\<open>value\<close> and an
  exponent \<^verbatim>\<open>exp\<close>, standing for \<^verbatim>\<open>value * 10 ^ exp\<close>. The operations the package calls
  are transcribed below with the library's structure: \<^verbatim>\<open>rescale\<close>, \<^verbatim>\<open>Add\<close>, \<^verbatim>\<open>Sub\<close>,
  \<^verbatim>\<open>Mul\<close>, \<^verbatim>\<open>Cmp\<close>, \<^verbatim>\<open>LessThan\<close>, \<^verbatim>\<open>QuoRem\<close>, \<^verbatim>\<open>DivRound\<close>, \<^verbatim>\<open>Div\<close>, \<^verbatim>\<open>Truncate\<close>,
  \<^verbatim>\<open>Exponent\<close> and \<^verbatim>\<open>NewFromInt\<close>. The exponent is an \<^verbatim>\<open>int32\<close> in Go; the library
  panics when an exponent leaves that range, which needs exponents of magnitude
  \<^verbatim>\<open>2 ^ 31\<close> and is left out: exponents are unbounded integers here. The zero value
  \<^verbatim>\<open>Decimal{}\<close> has a nil \<^verbatim>\<open>value\<close> that every operation reads as 0.
\<close>

record Decimal =
  dvalue :: int
  dexp :: int

text \<open>The rational number a decimal stands for.\<close>

definition dval :: "Decimal \<Rightarrow> rat" where
  "dval d = of_int (dvalue d) * 10 powi (dexp d)"

text \<open>\<^verbatim>\<open>big.Int.Quo\<close> and \<^verbatim>\<open>big.Int.QuoRem\<close> truncate towards zero.\<close>

definition Quo :: "int \<Rightarrow> int \<Rightarrow> int" where
  "Quo a b = sgn a * sgn b * (\<bar>a\<bar> div \<bar>b\<bar>)"

definition Rem :: "int \<Rightarrow> int \<Rightarrow> int" where
  "Rem a b = a - b * Quo a b"

definition New :: "int \<Rightarrow> int \<Rightarrow> Decimal" where
  "New v e = \<lparr>dvalue = v, dexp = e\<rparr>"

definition NewFromInt :: "int \<Rightarrow> Decimal" where
  "NewFromInt v = \<lparr>dvalue = v, dexp = 0\<rparr>"

text \<open>The zero value \<^verbatim>\<open>Decimal{}\<close> of a field that was never assigned.\<close>

definition Zero :: Decimal where
  "Zero = \<lparr>dvalue = 0, dexp = 0\<rparr>"

definition Exponent :: "Decimal \<Rightarrow> int" where
  "Exponent d = dexp d"

definition rescale :: "Decimal \<Rightarrow> int \<Rightarrow> Decimal" where
  "rescale d e =
     (if dexp d = e then d
      else if e > dexp d then \<lparr>dvalue = Quo (dvalue d) (10 ^ nat (e - dexp d)), dexp = e\<rparr>
      else \<lparr>dvalue = dvalue d * 10 ^ nat (dexp d - e), dexp = e\<rparr>)"

definition RescalePair :: "Decimal \<Rightarrow> Decimal \<Rightarrow> Decimal \<times> Decimal" where
  "RescalePair d1 d2 =
     (if dexp d1 = dexp d2 then (d1, d2)
      else let baseScale = min (dexp d1) (dexp d2)
           in if baseScale \<noteq> dexp d1 then (rescale d1 baseScale, d2)
              else (d1, rescale d2 baseScale))"

definition Add :: "Decimal \<Rightarrow> Decimal \<Rightarrow> Decimal" where
  "Add d d2 = (let (rd, rd2) = RescalePair d d2
               in \<lparr>dvalue = dvalue rd + dvalue rd2, dexp = dexp rd\<rparr>)"

definition Sub :: "Decimal \<Rightarrow> Decimal \<Rightarrow> Decimal" where
  "Sub d d2 = (let (rd, rd2) = RescalePair d d2
               in \<lparr>dvalue = dvalue rd - dvalue rd2, dexp = dexp rd\<rparr>)"

definition Mul :: "Decimal \<Rightarrow> Decimal \<Rightarrow> Decimal" where
  "Mul d d2 = \<lparr>dvalue = dvalue d * dvalue d2, dexp = dexp d + dexp d2\<rparr>"

definition Abs :: "Decimal \<Rightarrow> Decimal" where
  "Abs d = \<lparr>dvalue = \<bar>dvalue d\<bar>, dexp = dexp d\<rparr>"

text \<open>\<^verbatim>\<open>Cmp\<close> returns -1, 0 or 1.\<close>

definition cmp_int :: "int \<Rightarrow> int \<Rightarrow> int" where
  "cmp_int a b = (if a < b then - 1 else if a = b then 0 else 1)"

definition Cmp :: "Decimal \<Rightarrow> Decimal \<Rightarrow> int" where
  "Cmp d d2 =
     (if dexp d = dexp d2 then cmp_int (dvalue d) (dvalue d2)
      else let (rd, rd2) = RescalePair d d2 in cmp_int (dvalue rd) (dvalue rd2))"

definition LessThan :: "Decimal \<Rightarrow> Decimal \<Rightarrow> bool" where
  "LessThan d d2 = (Cmp d d2 = - 1)"

text \<open>
  \<^verbatim>\<open>Truncate(precision)\<close> cuts digits after the \<^verbatim>\<open>precision\<close>-th decimal place. The
  library acts only on a precision that is not negative:
  \<^verbatim>\<open>if precision >= 0 && -precision > d.exp { return d.rescale(-precision) }; return d\<close>.
\<close>

definition Truncate :: "Decimal \<Rightarrow> int \<Rightarrow> Decimal" where
  "Truncate d precision =
     (if precision \<ge> 0 \<and> - precision > dexp d then rescale d (- precision) else d)"

text \<open>
  \<^verbatim>\<open>QuoRem(d2, precision)\<close>: quotient as a multiple of \<^verbatim>\<open>10 ^ -precision\<close> and the
  remainder. The library panics on a zero divisor; \<^verbatim>\<open>Claim\<close> divides only by a count
  it has compared with 0 before, see \<open>allocate_divisor_nonzero\<close> below.
\<close>

definition QuoRem :: "Decimal \<Rightarrow> Decimal \<Rightarrow> int \<Rightarrow> Decimal \<times> Decimal" where
  "QuoRem d d2 precision =
     (let scale = - precision;
          e = dexp d - dexp d2 - scale;
          (aa, bb, scalerest) =
             (if e < 0 then (dvalue d, dvalue d2 * 10 ^ nat (- e), dexp d)
              else (dvalue d * 10 ^ nat e, dvalue d2, scale + dexp d2))
      in (\<lparr>dvalue = Quo aa bb, dexp = scale\<rparr>, \<lparr>dvalue = Rem aa bb, dexp = scalerest\<rparr>))"

text \<open>\<^verbatim>\<open>DivRound\<close>: the quotient rounded half away from zero at \<^verbatim>\<open>precision\<close> places.\<close>

definition DivRound :: "Decimal \<Rightarrow> Decimal \<Rightarrow> int \<Rightarrow> Decimal" where
  "DivRound d d2 precision =
     (let (q, r) = QuoRem d d2 precision;
          r2 = \<lparr>dvalue = \<bar>dvalue r\<bar> * 2, dexp = dexp r + precision\<rparr>;
          c = Cmp r2 (Abs d2)
      in if c < 0 then q
         else if sgn (dvalue d) * sgn (dvalue d2) < 0 then Sub q (New 1 (- precision))
         else Add q (New 1 (- precision)))"

text \<open>\<^verbatim>\<open>DivisionPrecision\<close> is the library's package variable, 16 unless a program changes it.\<close>

definition DivisionPrecision :: int where
  "DivisionPrecision = 16"

definition Div :: "Decimal \<Rightarrow> Decimal \<Rightarrow> Decimal" where
  "Div d d2 = DivRound d d2 DivisionPrecision"


section \<open>The data model of \<^verbatim>\<open>packet.go\<close>\<close>

type_synonym int64 = "64 word"

text \<open>\<^verbatim>\<open>type Mode int\<close> with \<^verbatim>\<open>_ = iota\<close>, \<^verbatim>\<open>Normal\<close>, \<^verbatim>\<open>Luck\<close>: any integer is a Mode.\<close>

definition Normal :: int where
  "Normal = 1"

definition Luck :: int where
  "Luck = 2"

text \<open>\<^verbatim>\<open>minimumRecordAmount, _ = decimal.NewFromString("0.01")\<close>: value 1, exponent -2.\<close>

definition minimumRecordAmount :: Decimal where
  "minimumRecordAmount = \<lparr>dvalue = 1, dexp = - 2\<rparr>"

text \<open>
  The structs \<^verbatim>\<open>Packet\<close> and \<^verbatim>\<open>Record\<close>. A \<^verbatim>\<open>time.Time\<close> is an instant, a natural
  number here, with 0 for the zero time of a field that was never set. The fields
  \<^verbatim>\<open>ID\<close>, \<^verbatim>\<open>CreatedAt\<close>, \<^verbatim>\<open>UpdatedAt\<close> and \<^verbatim>\<open>UserID\<close> of \<^verbatim>\<open>Record\<close> carry the prefix
  \<open>Record\<close> here, since both structs have fields of these names.
\<close>

record Packet =
  ID :: int64
  CreatedAt :: nat
  UpdatedAt :: nat
  UserID :: int64
  Message :: string
  Mode :: int
  TotalCount :: int64
  RemainCount :: int64
  TotalAmount :: Decimal
  RemainAmount :: Decimal

record Record =
  RecordID :: int64
  RecordCreatedAt :: nat
  RecordUpdatedAt :: nat
  RecordUserID :: int64
  PacketID :: int64
  Amount :: Decimal

text \<open>
  Errors as values. \<^verbatim>\<open>ErrExhausted\<close> and \<^verbatim>\<open>ErrOptimisticLock\<close> are the package's own
  variables; \<open>ErrRecordNotFound\<close> is what \<^verbatim>\<open>First\<close> of the storage library reports for
  an empty result; \<open>ContextErr\<close> is \<^verbatim>\<open>ctx.Err()\<close> after \<^verbatim>\<open>ctx.Done()\<close> has fired;
  \<open>StorageErr n\<close> is any other error of the driver or the database, numbered.
\<close>

datatype ctx_error = Canceled | DeadlineExceeded

datatype error =
    ErrExhausted
  | ErrOptimisticLock
  | ErrRecordNotFound
  | ContextErr ctx_error
  | StorageErr nat

section \<open>Storage\<close>

text \<open>
  The database behind \<^verbatim>\<open>*gorm.DB\<close>: the rows of the two tables, each list in the order
  in which \<^verbatim>\<open>First\<close> scans it (primary key order). Values are stored as they are
  written; what a database engine does to a value that does not fit its column is not
  part of the model.
\<close>

record DB =
  packets :: "Packet list"
  records :: "Record list"

text \<open>
  What one attempt of \<^verbatim>\<open>Claim\<close> meets outside the program: a fault the storage raises
  on a statement (\<open>None\<close> when the statement runs), the number \<^verbatim>\<open>rand.Float64()\<close> draws,
  converted by \<^verbatim>\<open>decimal.NewFromFloat\<close>, the time the storage library reads when it
  updates and when it inserts, the primary key the database gives the inserted row, and
  whether \<^verbatim>\<open>ctx.Done()\<close> fires before the 50 ms timer does.
\<close>

record Env =
  find_record_fault :: "nat option"
  random :: Decimal
  update_fault :: "nat option"
  update_now :: nat
  create_fault :: "nat option"
  create_now :: nat
  new_id :: int64
  ctx_done :: "ctx_error option"
  find_packet_fault :: "nat option"

text \<open>\<^verbatim>\<open>db.Where(cond).First(&row)\<close>.\<close>

definition First :: "nat option \<Rightarrow> ('a \<Rightarrow> bool) \<Rightarrow> 'a list \<Rightarrow> error + 'a" where
  "First fault cond rows =
     (case fault of
        Some n \<Rightarrow> Inl (StorageErr n)
      | None \<Rightarrow> (case find cond rows of None \<Rightarrow> Inl ErrRecordNotFound | Some row \<Rightarrow> Inr row))"

definition FindPacket :: "nat option \<Rightarrow> DB \<Rightarrow> int64 \<Rightarrow> error + Packet" where
  "FindPacket fault db pid = First fault (\<lambda>p. ID p = pid) (packets db)"

definition FindUserRecord :: "nat option \<Rightarrow> DB \<Rightarrow> int64 \<Rightarrow> int64 \<Rightarrow> error + Record" where
  "FindUserRecord fault db userID packetID =
     First fault (\<lambda>r. RecordUserID r = userID \<and> PacketID r = packetID) (records db)"

text \<open>
  A transaction of the storage library: \<^verbatim>\<open>db.Begin()\<close> opens it, statements run on
  its working copy, \<^verbatim>\<open>Commit\<close> makes the working copy the stored state, and
  \<^verbatim>\<open>RollbackUnlessCommitted\<close> drops the working copy unless \<^verbatim>\<open>Commit\<close> ran before.
\<close>

record Tx =
  begun :: DB
  working :: DB
  committed :: bool

definition Begin :: "DB \<Rightarrow> Tx" where
  "Begin db = \<lparr>begun = db, working = db, committed = False\<rparr>"

definition Commit :: "Tx \<Rightarrow> Tx" where
  "Commit tx = tx\<lparr>committed := True\<rparr>"

text \<open>The stored state once the transaction has ended.\<close>

definition RollbackUnlessCommitted :: "Tx \<Rightarrow> DB" where
  "RollbackUnlessCommitted tx = (if committed tx then working tx else begun tx)"

text \<open>
  \<^verbatim>\<open>tx.Model(packet).Where("id = ? AND remain_count = ?", id, rc).Updates(updates)\<close>.
  Before it runs the statement the storage library assigns the values of \<^verbatim>\<open>updates\<close>
  and the time of the update to the fields of the struct given to \<^verbatim>\<open>Model\<close>, which is
  the caller's \<^verbatim>\<open>*Packet\<close>; \<open>assign\<close> is that assignment, and it is also what the
  statement writes into every row it hits. The result is the error, \<^verbatim>\<open>RowsAffected\<close>,
  the struct given to \<^verbatim>\<open>Model\<close> and the transaction afterwards.
\<close>

definition assign :: "int64 \<times> Decimal \<Rightarrow> nat \<Rightarrow> Packet \<Rightarrow> Packet" where
  "assign updates now p =
     p\<lparr>UpdatedAt := now, RemainCount := fst updates, RemainAmount := snd updates\<rparr>"

definition Updates ::
  "nat option \<Rightarrow> nat \<Rightarrow> Tx \<Rightarrow> Packet \<Rightarrow> int64 \<Rightarrow> int64 \<Rightarrow> int64 \<times> Decimal
   \<Rightarrow> error option \<times> nat \<times> Packet \<times> Tx" where
  "Updates fault now tx model pid rc updates =
     (let model' = assign updates now model
      in case fault of
           Some n \<Rightarrow> (Some (StorageErr n), 0, model', tx)
         | None \<Rightarrow>
             (let hit = (\<lambda>p. ID p = pid \<and> RemainCount p = rc);
                  w = working tx
              in (None, length (filter hit (packets w)), model',
                  tx\<lparr>working := w\<lparr>packets :=
                     map (\<lambda>p. if hit p then assign updates now p else p) (packets w)\<rparr>\<rparr>)))"

text \<open>
  \<^verbatim>\<open>tx.Create(r)\<close>: the storage library writes the time into the blank \<^verbatim>\<open>CreatedAt\<close> and
  \<^verbatim>\<open>UpdatedAt\<close> of \<^verbatim>\<open>r\<close>, inserts the row and writes the primary key the database chose
  into \<^verbatim>\<open>r\<close>, whose \<^verbatim>\<open>ID\<close> was blank.
\<close>

definition Create ::
  "nat option \<Rightarrow> nat \<Rightarrow> int64 \<Rightarrow> Tx \<Rightarrow> Record \<Rightarrow> error option \<times> Record \<times> Tx" where
  "Create fault now key tx r =
     (let stamped = r\<lparr>RecordCreatedAt := (if RecordCreatedAt r = 0 then now else RecordCreatedAt r),
                      RecordUpdatedAt := (if RecordUpdatedAt r = 0 then now else RecordUpdatedAt r)\<rparr>
      in case fault of
           Some n \<Rightarrow> (Some (StorageErr n), stamped, tx)
         | None \<Rightarrow>
             (let r' = (if RecordID stamped = 0 then stamped\<lparr>RecordID := key\<rparr> else stamped);
                  w = working tx
              in (None, r', tx\<lparr>working := w\<lparr>records := records w @ [r']\<rparr>\<rparr>)))"

text \<open>
  \<^verbatim>\<open>func transaction(db, fn)\<close>:
  \<^verbatim>\<open>tx := db.Begin(); defer tx.RollbackUnlessCommitted(); return fn(tx)\<close>.
  The result carries what \<^verbatim>\<open>fn\<close> returns and the stored state after the deferred call.
\<close>

definition transaction :: "DB \<Rightarrow> (Tx \<Rightarrow> 'a \<times> Tx) \<Rightarrow> 'a \<times> DB" where
  "transaction db fn = (let tx = Begin db; (res, tx') = fn tx in (res, RollbackUnlessCommitted tx'))"

section \<open>Claim\<close>

text \<open>The \<^verbatim>\<open>switch\<close> of \<^verbatim>\<open>Claim\<close> that sets \<^verbatim>\<open>r.Amount\<close> (lines 96 to 112).\<close>

definition allocate :: "Packet \<Rightarrow> Decimal \<Rightarrow> Decimal" where
  "allocate packet rnd =
     (if RemainCount packet = 1 then RemainAmount packet
      else if Mode packet = Normal
        then Div (RemainAmount packet) (NewFromInt (sint (RemainCount packet)))
      else if Mode packet = Luck then
        (let min = minimumRecordAmount;
             max = Sub (RemainAmount packet) (Mul (NewFromInt (sint (RemainCount packet - 1))) min);
             avg = Div (RemainAmount packet) (NewFromInt (sint (RemainCount packet)));
             max = (if LessThan (Add avg avg) max then Add avg avg else max)
         in Truncate (Add (Mul (Sub max min) rnd) min) (Exponent min))
      else Zero)"

text \<open>
  The function passed to \<^verbatim>\<open>transaction\<close> (lines 115 to 131). It reads \<^verbatim>\<open>packet\<close> after
  line 114 has assigned \<^verbatim>\<open>packet.RemainAmount\<close>; the arguments of \<^verbatim>\<open>Where\<close> and the map
  \<^verbatim>\<open>updates\<close> are evaluated before \<^verbatim>\<open>Updates\<close> assigns to \<^verbatim>\<open>packet\<close>; \<^verbatim>\<open>Create\<close> writes
  into \<^verbatim>\<open>r\<close>. The result carries the error, \<^verbatim>\<open>r\<close> and \<^verbatim>\<open>packet\<close> as the function
  leaves them.
\<close>

definition claim_tx ::
  "Env \<Rightarrow> Packet \<Rightarrow> Record \<Rightarrow> Tx \<Rightarrow> (error option \<times> Record \<times> Packet) \<times> Tx" where
  "claim_tx env packet r tx =
     (let updates = (RemainCount packet - 1, RemainAmount packet)
      in case Updates (update_fault env) (update_now env) tx packet
                (ID packet) (RemainCount packet) updates of
           (Some e, RowsAffected, packet', tx') \<Rightarrow> ((Some e, r, packet'), tx')
         | (None, RowsAffected, packet', tx') \<Rightarrow>
             if RowsAffected = 0 then ((Some ErrOptimisticLock, r, packet'), tx')
             else (case Create (create_fault env) (create_now env) (new_id env) tx' r of
                     (e, r', tx'') \<Rightarrow> ((e, r', packet'), tx'')))"

text \<open>
  The record \<^verbatim>\<open>r\<close> that \<^verbatim>\<open>Claim\<close> builds in lines 91 to 112, with the amount the
  \<^verbatim>\<open>switch\<close> gives it, and the assignment of line 114,
  \<^verbatim>\<open>packet.RemainAmount = packet.RemainAmount.Sub(r.Amount)\<close>, to the caller's struct.
\<close>

definition new_record :: "Packet \<Rightarrow> int64 \<Rightarrow> Decimal \<Rightarrow> Record" where
  "new_record packet userID rnd =
     \<lparr>RecordID = 0, RecordCreatedAt = 0, RecordUpdatedAt = 0, RecordUserID = userID,
      PacketID = ID packet, Amount = allocate packet rnd\<rparr>"

definition debit :: "Packet \<Rightarrow> Record \<Rightarrow> Packet" where
  "debit packet r = packet\<lparr>RemainAmount := Sub (RemainAmount packet) (Amount r)\<rparr>"

text \<open>
  \<^verbatim>\<open>Claim(ctx, db, packet, userID)\<close>. The caller's \<^verbatim>\<open>*Packet\<close> is passed in and handed
  back as \<^verbatim>\<open>Claim\<close> leaves it: with the assignment of line 114 and with what
  \<^verbatim>\<open>Updates\<close> in line 123 assigns to the struct given to \<^verbatim>\<open>Model\<close>. Every attempt takes
  one \<open>Env\<close>; the retry of line 145 is the recursive call on the remaining ones, with
  the packet \<^verbatim>\<open>FindPacket\<close> has loaded, and \<open>None\<close> says that \<^verbatim>\<open>Claim\<close> has not returned
  within the attempts listed. In the \<^verbatim>\<open>select\<close> of line 134, \<open>ctx_done\<close> tells which
  of the two channels delivers.
\<close>

fun Claim :: "Env list \<Rightarrow> DB \<Rightarrow> Packet \<Rightarrow> int64 \<Rightarrow> ((error + Record) \<times> Packet \<times> DB) option" where
  "Claim [] db packet userID = None"
| "Claim (env # envs) db packet userID =
     (if RemainCount packet = 0 then Some (Inl ErrExhausted, packet, db)
      else case FindUserRecord (find_record_fault env) db userID (ID packet) of
        Inr found \<Rightarrow> Some (Inr found, packet, db)
      | Inl _ \<Rightarrow>
          (let r = new_record packet userID (random env);
               packet' = debit packet r;
               ((err, r', packet''), db') = transaction db (claim_tx env packet' r)
           in case err of
                None \<Rightarrow> Some (Inr r', packet'', db')
              | Some e \<Rightarrow>
                  if e = ErrOptimisticLock then
                    (case ctx_done env of
                       Some c \<Rightarrow> Some (Inl (ContextErr c), packet'', db')
                     | None \<Rightarrow>
                         (case FindPacket (find_packet_fault env) db' (ID packet'') of
                            Inl e2 \<Rightarrow> Some (Inl e2, packet'', db')
                          | Inr latest \<Rightarrow>
                              (case Claim envs db' latest userID of
                                 None \<Rightarrow> None
                               | Some (res, _, db'') \<Rightarrow> Some (res, packet'', db''))))
                  else Some (Inl e, packet'', db')))"

section \<open>Properties and example inputs\<close>






text \<open>
  The rows the conditional update of an attempt hits, what it writes into them, and
  the caller's struct as an attempt that has reached the update leaves it.
\<close>

definition hit :: "Packet \<Rightarrow> Packet \<Rightarrow> bool" where
  "hit packet p \<longleftrightarrow> ID p = ID packet \<and> RemainCount p = RemainCount packet"

definition written :: "Env \<Rightarrow> Packet \<Rightarrow> Packet \<Rightarrow> Packet" where
  "written env packet p =
     (if hit packet p
      then assign (RemainCount packet - 1, RemainAmount packet) (update_now env) p
      else p)"

definition left :: "Env \<Rightarrow> Packet \<Rightarrow> Packet" where
  "left env packet =
     packet\<lparr>UpdatedAt := update_now env, RemainCount := RemainCount packet - 1,
            RemainAmount := Sub (RemainAmount packet) (allocate packet (random env))\<rparr>"

text \<open>The Record as \<^verbatim>\<open>Create\<close> leaves it when its \<^verbatim>\<open>ID\<close> and its times were blank.\<close>

definition inserted :: "Env \<Rightarrow> Record \<Rightarrow> Record" where
  "inserted env r = r\<lparr>RecordID := new_id env, RecordCreatedAt := create_now env,
                       RecordUpdatedAt := create_now env\<rparr>"

text \<open>
  Example inputs: a packet of 1.00 in two slots, created at time 10, its storage, and a
  quiet environment whose clock reads 20 and 21.
\<close>

definition packet_ex :: Packet where
  "packet_ex = \<lparr>ID = 1, CreatedAt = 10, UpdatedAt = 10, UserID = 9, Message = ''gift'',
     Mode = Normal, TotalCount = 2, RemainCount = 2,
     TotalAmount = \<lparr>dvalue = 100, dexp = - 2\<rparr>,
     RemainAmount = \<lparr>dvalue = 100, dexp = - 2\<rparr>\<rparr>"

definition db_ex :: DB where
  "db_ex = \<lparr>packets = [packet_ex], records = []\<rparr>"

definition env_ex :: Env where
  "env_ex = \<lparr>find_record_fault = None, random = \<lparr>dvalue = 25, dexp = - 2\<rparr>,
     update_fault = None, update_now = 20, create_fault = None, create_now = 21,
     new_id = 5, ctx_done = None, find_packet_fault = None\<rparr>"

text \<open>A Record of claimant 7 for packet 1, and a storage that holds it.\<close>

definition record_ex :: Record where
  "record_ex = \<lparr>RecordID = 3, RecordCreatedAt = 15, RecordUpdatedAt = 15, RecordUserID = 7,
     PacketID = 1, Amount = \<lparr>dvalue = 40, dexp = - 2\<rparr>\<rparr>"

definition db_claimed :: DB where
  "db_claimed = \<lparr>packets = [packet_ex\<lparr>UpdatedAt := 15, RemainCount := 1,
                                       RemainAmount := \<lparr>dvalue = 60, dexp = - 2\<rparr>\<rparr>],
     records = [record_ex]\<rparr>"

section \<open>What the decimal operations compute\<close>

text \<open>
  Addition, subtraction, multiplication and comparison are exact on the numbers the
  decimals stand for; \<open>Div\<close> rounds the quotient to the nearest multiple of
  \<open>10 ^ -16\<close>.
\<close>

lemma ten_powi_pos: "(0::rat) < 10 powi e"
  by (simp add: zero_less_power_int)

lemma ten_powi_split: "(10::rat) powi a = 10 ^ nat (a - b) * 10 powi b" if "b \<le> a"
proof -
  have "(10::rat) powi a = 10 powi ((a - b) + b)" by simp
  also have "\<dots> = 10 powi (a - b) * 10 powi b"
    by (rule power_int_add) simp
  also have "10 powi (a - b) = (10::rat) ^ nat (a - b)"
    using that by (simp add: power_int_def)
  finally show ?thesis .
qed

lemma dval_rescale: "e \<le> dexp d \<Longrightarrow> dval (rescale d e) = dval d"
  by (simp add: rescale_def dval_def ten_powi_split [of e "dexp d"])

lemma RescalePair_sound:
  assumes "RescalePair d1 d2 = (r1, r2)"
  shows "dval r1 = dval d1" and "dval r2 = dval d2" and "dexp r1 = dexp r2"
proof -
  have eq: "dexp (rescale d e) = e" for d e
    by (simp add: rescale_def)
  consider "dexp d1 = dexp d2" | "dexp d1 < dexp d2" | "dexp d2 < dexp d1"
    by linarith
  then have "dval r1 = dval d1 \<and> dval r2 = dval d2 \<and> dexp r1 = dexp r2"
  proof cases
    case 1
    with assms show ?thesis by (auto simp: RescalePair_def)
  next
    case 2
    with assms have "r1 = d1" "r2 = rescale d2 (dexp d1)"
      by (auto simp: RescalePair_def Let_def min_def)
    with 2 show ?thesis by (simp add: dval_rescale eq)
  next
    case 3
    with assms have "r1 = rescale d1 (dexp d2)" "r2 = d2"
      by (auto simp: RescalePair_def Let_def min_def)
    with 3 show ?thesis by (simp add: dval_rescale eq)
  qed
  then show "dval r1 = dval d1" and "dval r2 = dval d2" and "dexp r1 = dexp r2"
    by simp_all
qed

lemma dval_same_exp: "dval \<lparr>dvalue = v, dexp = e\<rparr> = of_int v * 10 powi e"
  by (simp add: dval_def)

lemma dval_Add: "dval (Add a b) = dval a + dval b"
proof -
  obtain r1 r2 where rp: "RescalePair a b = (r1, r2)" by (cases "RescalePair a b")
  from RescalePair_sound [OF rp] show ?thesis
    by (simp add: Add_def rp dval_def algebra_simps)
qed

lemma dval_Sub: "dval (Sub a b) = dval a - dval b"
proof -
  obtain r1 r2 where rp: "RescalePair a b = (r1, r2)" by (cases "RescalePair a b")
  from RescalePair_sound [OF rp] show ?thesis
    by (simp add: Sub_def rp dval_def algebra_simps)
qed

lemma dval_Mul: "dval (Mul a b) = dval a * dval b"
  by (simp add: Mul_def dval_def power_int_add)

lemma dval_NewFromInt: "dval (NewFromInt n) = of_int n"
  by (simp add: NewFromInt_def dval_def)

lemma dval_minimum: "dval minimumRecordAmount = 1 / 100"
  by (simp add: minimumRecordAmount_def dval_def power_int_def power2_eq_square)

lemma dval_less_same_exp:
  "dexp a = dexp b \<Longrightarrow> dval a < dval b \<longleftrightarrow> dvalue a < dvalue b"
  using ten_powi_pos [of "dexp b"] by (simp add: dval_def)

lemma Cmp_less: "Cmp a b < 0 \<longleftrightarrow> dval a < dval b"
proof -
  obtain r1 r2 where rp: "RescalePair a b = (r1, r2)" by (cases "RescalePair a b")
  note s = RescalePair_sound [OF rp]
  have "Cmp a b = cmp_int (dvalue r1) (dvalue r2)"
    using rp by (auto simp: Cmp_def RescalePair_def)
  then have "Cmp a b < 0 \<longleftrightarrow> dvalue r1 < dvalue r2"
    by (simp add: cmp_int_def)
  also have "\<dots> \<longleftrightarrow> dval r1 < dval r2"
    using dval_less_same_exp [OF s(3)] by simp
  finally show ?thesis by (simp add: s)
qed

lemma LessThan_iff: "LessThan a b \<longleftrightarrow> dval a < dval b"
proof -
  have "Cmp a b = - 1 \<longleftrightarrow> Cmp a b < 0"
    by (auto simp: Cmp_def cmp_int_def Let_def split: prod.splits)
  then show ?thesis by (simp add: LessThan_def Cmp_less)
qed

lemma Quo_nonneg: "0 \<le> a \<Longrightarrow> 0 < b \<Longrightarrow> Quo a b = a div b"
  by (cases "a = 0") (simp_all add: Quo_def)

lemma Rem_nonneg: "0 \<le> a \<Longrightarrow> 0 < b \<Longrightarrow> Rem a b = a mod b"
  by (simp add: Rem_def Quo_nonneg minus_mult_div_eq_mod)

lemma ten_powi_16: "(10::rat) powi (a + 16) = 10 ^ 16 * 10 powi a"
proof -
  have "(10::rat) powi (a + 16) = 10 powi a * 10 powi 16"
    by (rule power_int_add) simp
  also have "(10::rat) powi 16 = 10 ^ 16"
    by (simp add: power_int_def)
  finally show ?thesis by simp
qed

lemma QuoRem_pos:
  assumes "0 \<le> dvalue d" and "0 < dvalue d2"
  obtains aa bb c sr where "0 \<le> aa" and "0 < bb" and "(0::rat) < c"
    and "QuoRem d d2 16 = (\<lparr>dvalue = aa div bb, dexp = - 16\<rparr>, \<lparr>dvalue = aa mod bb, dexp = sr\<rparr>)"
    and "dval d / dval d2 * 10 ^ 16 = of_int aa / of_int bb"
    and "dval \<lparr>dvalue = \<bar>aa mod bb\<bar> * 2, dexp = sr + 16\<rparr> = of_int (2 * (aa mod bb)) * c"
    and "dval (Abs d2) = of_int bb * c"
proof (cases "dexp d - dexp d2 + 16 < 0")
  case True
  define n where "n = nat (- (dexp d - dexp d2 + 16))"
  define aa where "aa = dvalue d"
  define bb where "bb = dvalue d2 * 10 ^ n"
  define c :: rat where "c = 10 powi (dexp d + 16)"
  have p: "0 \<le> aa" "0 < bb" "0 < c"
    using assms by (simp_all add: aa_def bb_def c_def zero_less_power_int)
  have e2: "(10::rat) powi (dexp d2) = 10 ^ n * c"
    unfolding n_def c_def using True ten_powi_split [of "dexp d + 16" "dexp d2"]
    by (simp add: algebra_simps)
  have q: "QuoRem d d2 16 = (\<lparr>dvalue = aa div bb, dexp = - 16\<rparr>, \<lparr>dvalue = aa mod bb, dexp = dexp d\<rparr>)"
    using True p by (simp add: QuoRem_def Let_def Quo_nonneg Rem_nonneg aa_def bb_def n_def)
  have c16: "c = 10 ^ 16 * 10 powi (dexp d)"
    by (simp add: c_def ten_powi_16)
  have pd: "(0::rat) < 10 powi (dexp d)" by (simp add: zero_less_power_int)
  have v: "dval d / dval d2 * 10 ^ 16 = of_int aa / of_int bb"
    using pd assms by (simp add: dval_def e2 c16 aa_def bb_def field_simps)
  have r: "dval \<lparr>dvalue = \<bar>aa mod bb\<bar> * 2, dexp = dexp d + 16\<rparr> = of_int (2 * (aa mod bb)) * c"
    using p by (simp add: dval_def c_def)
  have a: "dval (Abs d2) = of_int bb * c"
    using assms by (simp add: dval_def Abs_def e2 bb_def)
  show ?thesis using that [OF p q v r a] .
next
  case False
  define n where "n = nat (dexp d - dexp d2 + 16)"
  define aa where "aa = dvalue d * 10 ^ n"
  define bb where "bb = dvalue d2"
  define c :: rat where "c = 10 powi (dexp d2)"
  have p: "0 \<le> aa" "0 < bb" "0 < c"
    using assms by (simp_all add: aa_def bb_def c_def zero_less_power_int)
  have e2: "(10::rat) powi (dexp d + 16) = 10 ^ n * c"
    unfolding n_def c_def using False ten_powi_split [of "dexp d2" "dexp d + 16"]
    by (simp add: algebra_simps)
  have q: "QuoRem d d2 16 = (\<lparr>dvalue = aa div bb, dexp = - 16\<rparr>, \<lparr>dvalue = aa mod bb, dexp = - 16 + dexp d2\<rparr>)"
    using False p by (simp add: QuoRem_def Let_def Quo_nonneg Rem_nonneg aa_def bb_def n_def)
  have pd: "(0::rat) < 10 powi (dexp d)" by (simp add: zero_less_power_int)
  have e3: "10 ^ 16 * (10::rat) powi (dexp d) = 10 ^ n * c"
    using e2 by (simp add: ten_powi_16)
  have "dval d / dval d2 * 10 ^ 16 = of_int (dvalue d) * (10 ^ 16 * 10 powi (dexp d)) / (of_int (dvalue d2) * c)"
    by (simp add: dval_def c_def)
  also have "\<dots> = of_int (dvalue d) * (10 ^ n * c) / (of_int (dvalue d2) * c)"
    by (simp only: e3)
  also have "\<dots> = of_int aa / of_int bb"
    using p by (simp add: aa_def bb_def)
  finally have v: "dval d / dval d2 * 10 ^ 16 = of_int aa / of_int bb" .
  have r: "dval \<lparr>dvalue = \<bar>aa mod bb\<bar> * 2, dexp = - 16 + dexp d2 + 16\<rparr> = of_int (2 * (aa mod bb)) * c"
    using p by (simp add: dval_def c_def)
  have a: "dval (Abs d2) = of_int bb * c"
    using assms by (simp add: dval_def Abs_def c_def bb_def)
  show ?thesis using that [OF p q v r a] .
qed

lemma half_round:
  fixes aa bb :: int
  assumes "0 \<le> aa" and "0 < bb"
  shows "2 * (aa mod bb) < bb \<Longrightarrow> \<bar>of_int (aa div bb) - (of_int aa / of_int bb :: rat)\<bar> \<le> 1 / 2"
    and "\<not> 2 * (aa mod bb) < bb \<Longrightarrow> \<bar>of_int (aa div bb + 1) - (of_int aa / of_int bb :: rat)\<bar> \<le> 1 / 2"
proof -
  have aa: "aa = bb * (aa div bb) + aa mod bb" by simp
  have m: "0 \<le> aa mod bb" "aa mod bb < bb" using assms by simp_all
  have b: "(0::rat) < of_int bb" using assms by simp
  have "(of_int aa :: rat) = of_int bb * of_int (aa div bb) + of_int (aa mod bb)"
    by (metis aa of_int_add of_int_mult)
  then have frac: "(of_int aa / of_int bb :: rat) = of_int (aa div bb) + of_int (aa mod bb) / of_int bb"
    using b by (simp add: field_simps)
  have m0: "(0::rat) \<le> of_int (aa mod bb) / of_int bb" using m b by simp
  {
    assume "2 * (aa mod bb) < bb"
    then have "2 * (of_int (aa mod bb) :: rat) < of_int bb"
      by (metis of_int_less_iff of_int_mult of_int_numeral)
    then have "(of_int (aa mod bb) / of_int bb :: rat) \<le> 1 / 2"
      using b by (simp add: field_simps)
    then show "\<bar>of_int (aa div bb) - (of_int aa / of_int bb :: rat)\<bar> \<le> 1 / 2"
      using m0 by (simp add: frac)
  }
  {
    assume "\<not> 2 * (aa mod bb) < bb"
    then have "bb \<le> 2 * (aa mod bb)" by simp
    then have "(of_int bb :: rat) \<le> 2 * of_int (aa mod bb)"
      by (metis of_int_le_iff of_int_mult of_int_numeral)
    then have h: "1 / 2 \<le> (of_int (aa mod bb) / of_int bb :: rat)"
      using b by (simp add: field_simps)
    have "(of_int (aa mod bb) :: rat) < of_int bb" using m by simp
    then have l: "(of_int (aa mod bb) / of_int bb :: rat) < 1"
      using b by (simp add: field_simps)
    show "\<bar>of_int (aa div bb + 1) - (of_int aa / of_int bb :: rat)\<bar> \<le> 1 / 2"
      using h l by (simp add: frac)
  }
qed

lemma Div_round:
  assumes "0 \<le> dvalue d" and "0 < dvalue d2"
  shows "dexp (Div d d2) = - 16"
    and "\<bar>of_int (dvalue (Div d d2)) - dval d / dval d2 * 10 ^ 16\<bar> \<le> 1 / 2"
proof -
  from assms obtain aa bb c sr where p: "0 \<le> aa" "0 < bb" "(0::rat) < c"
    and q: "QuoRem d d2 16 = (\<lparr>dvalue = aa div bb, dexp = - 16\<rparr>, \<lparr>dvalue = aa mod bb, dexp = sr\<rparr>)"
    and v: "dval d / dval d2 * 10 ^ 16 = of_int aa / of_int bb"
    and r: "dval \<lparr>dvalue = \<bar>aa mod bb\<bar> * 2, dexp = sr + 16\<rparr> = of_int (2 * (aa mod bb)) * c"
    and a: "dval (Abs d2) = of_int bb * c"
    by (rule QuoRem_pos)
  have c: "Cmp \<lparr>dvalue = \<bar>aa mod bb\<bar> * 2, dexp = sr + 16\<rparr> (Abs d2) < 0 \<longleftrightarrow> 2 * (aa mod bb) < bb"
    using p(3) by (simp only: Cmp_less r a mult_less_cancel_right_pos of_int_less_iff)
  have s: "\<not> sgn (dvalue d) * sgn (dvalue d2) < 0"
    using assms by (simp add: sgn_if)
  have D: "Div d d2 = (if 2 * (aa mod bb) < bb then \<lparr>dvalue = aa div bb, dexp = - 16\<rparr>
                       else \<lparr>dvalue = aa div bb + 1, dexp = - 16\<rparr>)"
    using c s
    by (simp add: Div_def DivRound_def DivisionPrecision_def q Let_def Add_def New_def RescalePair_def)
  show "dexp (Div d d2) = - 16" by (simp add: D)
  show "\<bar>of_int (dvalue (Div d d2)) - dval d / dval d2 * 10 ^ 16\<bar> \<le> 1 / 2"
    using half_round [OF p(1,2)] by (simp only: D v split: if_split) simp
qed

lemma sint_zero:
  fixes c :: int64
  shows "sint c = 0 \<Longrightarrow> c = 0"
proof -
  assume "sint c = 0"
  then have "(of_int (sint c) :: int64) = of_int 0" by simp
  then show "c = 0" by simp
qed

lemma sint_pred:
  fixes c :: int64
  assumes "1 \<le> sint c"
  shows "sint (c - 1) = sint c - 1"
proof -
  have "sint c < 2 ^ 63" using sint_lt [of c] by simp
  with assms have "signed_take_bit 63 (sint c - 1) = sint c - 1"
    by (intro signed_take_bit_int_eq_self) simp_all
  then show ?thesis by (simp add: sint_word_ariths)
qed

lemma sint_ge_2:
  fixes c :: int64
  assumes "1 \<le> sint c" and "c \<noteq> 1"
  shows "2 \<le> sint c"
proof -
  have "sint c = 1 \<Longrightarrow> c = 1"
  proof -
    assume "sint c = 1"
    then have "(of_int (sint c) :: int64) = of_int 1" by simp
    then show "c = 1" by simp
  qed
  with assms show ?thesis by fastforce
qed

lemma dvalue_pos: "0 < dval d \<Longrightarrow> 0 < dvalue d"
  using ten_powi_pos [of "dexp d"] by (simp add: dval_def zero_less_mult_iff)

lemma dval_m16: "dexp d = - 16 \<Longrightarrow> dval d = of_int (dvalue d) / 10 ^ 16"
  by (simp add: dval_def power_int_def field_simps)

lemma round_core:
  fixes k :: int and Q N :: rat
  assumes r: "\<bar>of_int k - Q\<bar> \<le> 1 / 2" and Qm: "100000000000000 \<le> Q" and N2: "2 \<le> N"
  shows "100000000000000 \<le> k" and "(N - 1) * 100000000000000 \<le> N * Q - of_int k"
proof -
  have "(99999999999999::rat) < of_int k" using r Qm by linarith
  then show km: "100000000000000 \<le> k" by linarith
  show "(N - 1) * 100000000000000 \<le> N * Q - of_int k"
  proof (cases "of_int k \<le> Q")
    case True
    have "0 \<le> (N - 1) * (Q - 100000000000000)" using N2 Qm by simp
    moreover have "(N - 1) * (Q - 100000000000000) = N * Q - Q - (N - 1) * 100000000000000"
      by (simp add: algebra_simps)
    ultimately show ?thesis using True by linarith
  next
    case False
    then have "(100000000000000::rat) < of_int k" using Qm by linarith
    then have "100000000000000 < k" by linarith
    then have "(100000000000001::rat) \<le> of_int k" by linarith
    with r have h: "1 / 2 \<le> Q - 100000000000000" by linarith
    have u: "(N - 1) * (1 / 2) \<le> (N - 1) * (Q - 100000000000000)"
      using N2 h by (intro mult_left_mono) simp_all
    have "1 / 2 \<le> (N - 1) * (1 / 2)" using N2 by simp
    then have "1 / 2 \<le> (N - 1) * (Q - 100000000000000)" using u by (rule order_trans)
    moreover have "(N - 1) * (Q - 100000000000000) = N * Q - Q - (N - 1) * 100000000000000"
      by (simp add: algebra_simps)
    moreover have "of_int k \<le> Q + 1 / 2" using r by linarith
    ultimately show ?thesis by linarith
  qed
qed

text \<open>Even split of an amount \<open>x\<close> over \<open>n \<ge> 2\<close> slots.\<close>
lemma Div_even:
  assumes n: "2 \<le> n" and x: "of_int n * (1 / 100) \<le> dval d"
  defines "a \<equiv> Div d (NewFromInt n)"
  shows "1 / 100 \<le> dval a" and "of_int (n - 1) * (1 / 100) \<le> dval d - dval a"
proof -
  have "(0::rat) < of_int n * (1 / 100)" using n by simp
  with x have dpos: "0 < dval d" by simp
  have v: "0 \<le> dvalue d" "0 < dvalue (NewFromInt n)"
    using dvalue_pos [OF dpos] n by (simp_all add: NewFromInt_def)
  define k where "k = dvalue a"
  define Q where "Q = dval d / of_int n * 10 ^ 16"
  define N :: rat where "N = of_int n"
  have N2: "2 \<le> N" using n by (simp add: N_def)
  have e: "dexp a = - 16" and r: "\<bar>of_int k - Q\<bar> \<le> 1 / 2"
    using Div_round [OF v] by (simp_all add: a_def k_def Q_def dval_NewFromInt)
  have a: "dval a = of_int k / 10 ^ 16" using e by (simp add: dval_m16 k_def)
  have d: "dval d = N * Q / 10 ^ 16" using N2 by (simp add: Q_def N_def)
  have "N * (1 / 100) \<le> N * Q / 10 ^ 16" using x by (simp add: d N_def)
  then have "N * 100000000000000 \<le> N * Q" by (simp add: field_simps)
  then have Qm: "100000000000000 \<le> Q" using N2 by simp
  note c = round_core [OF r Qm N2]
  from c(1) have "(100000000000000::rat) \<le> of_int k" by linarith
  then show "1 / 100 \<le> dval a" by (simp add: a field_simps)
  from c(2) have "(N - 1) * 100000000000000 / 10 ^ 16 \<le> (N * Q - of_int k) / 10 ^ 16"
    by (simp add: divide_right_mono)
  then show "of_int (n - 1) * (1 / 100) \<le> dval d - dval a"
    by (simp add: a d N_def diff_divide_distrib)
qed

section \<open>The allocation\<close>

lemma allocate_divisor_nonzero:
  "RemainCount packet \<noteq> 0 \<Longrightarrow> dvalue (NewFromInt (sint (RemainCount packet))) \<noteq> 0"
  using sint_zero [of "RemainCount packet"] by (auto simp: NewFromInt_def)

lemma Truncate_minimum: "Truncate x (Exponent minimumRecordAmount) = x"
  by (simp add: Truncate_def Exponent_def minimumRecordAmount_def)

lemma allocate_last: "RemainCount packet = 1 \<Longrightarrow> allocate packet rnd = RemainAmount packet"
  by (simp add: allocate_def)

lemma allocate_Normal:
  "RemainCount packet \<noteq> 1 \<Longrightarrow> Mode packet = Normal \<Longrightarrow>
   allocate packet rnd = Div (RemainAmount packet) (NewFromInt (sint (RemainCount packet)))"
  by (simp add: allocate_def)

lemma dval_allocate_Luck:
  assumes "RemainCount packet \<noteq> 1" and "Mode packet = Luck"
  defines "avg \<equiv> Div (RemainAmount packet) (NewFromInt (sint (RemainCount packet)))"
  defines "max1 \<equiv> dval (RemainAmount packet)
                     - of_int (sint (RemainCount packet - 1)) * dval minimumRecordAmount"
  shows "dval (allocate packet rnd) =
         dval minimumRecordAmount
         + dval rnd * (min max1 (2 * dval avg) - dval minimumRecordAmount)"
  using assms(1,2)
  by (simp add: allocate_def Normal_def Luck_def Let_def Truncate_minimum dval_Add dval_Sub
      dval_Mul dval_NewFromInt LessThan_iff avg_def max1_def min_def algebra_simps)

lemma Sub_self: "Sub d d = \<lparr>dvalue = 0, dexp = dexp d\<rparr>"
  by (simp add: Sub_def RescalePair_def)

section \<open>The transaction and the retry\<close>

lemma Updates_frame:
  "Updates f now tx m pid rc u = (e, n, m', tx') \<Longrightarrow>
   begun tx' = begun tx \<and> committed tx' = committed tx \<and> m' = assign u now m"
  by (auto simp: Updates_def Let_def split: option.splits)

lemma Create_frame:
  "Create f now key tx r = (e, r', tx') \<Longrightarrow> begun tx' = begun tx \<and> committed tx' = committed tx"
  by (auto simp: Create_def Let_def split: option.splits)

lemma claim_tx_frame:
  assumes "claim_tx env p r tx = ((e, r', p'), tx')"
  shows "begun tx' = begun tx" and "committed tx' = committed tx"
    and "p' = assign (RemainCount p - 1, RemainAmount p) (update_now env) p"
proof -
  obtain e1 n p1 tx1 where u: "Updates (update_fault env) (update_now env) tx p (ID p) (RemainCount p)
      (RemainCount p - 1, RemainAmount p) = (e1, n, p1, tx1)"
    by (metis prod_cases4)
  obtain e2 r2 tx2 where c: "Create (create_fault env) (create_now env) (new_id env) tx1 r = (e2, r2, tx2)"
    by (metis prod_cases3)
  from assms have "(tx' = tx1 \<or> tx' = tx2) \<and> p' = p1"
    by (auto simp: claim_tx_def Let_def u c split: option.splits if_splits)
  with Updates_frame [OF u] Create_frame [OF c]
  show "begun tx' = begun tx" and "committed tx' = committed tx"
    and "p' = assign (RemainCount p - 1, RemainAmount p) (update_now env) p"
    by auto
qed

lemma transaction_claim_tx: "snd (transaction db (claim_tx env p r)) = db"
proof -
  obtain e r' p' tx' where c: "claim_tx env p r (Begin db) = ((e, r', p'), tx')"
    by (metis surj_pair)
  from claim_tx_frame(1,2) [OF c] have "begun tx' = db" and "\<not> committed tx'"
    by (simp_all add: Begin_def)
  then show ?thesis
    by (simp add: transaction_def c RollbackUnlessCommitted_def)
qed

lemma transaction_fst: "fst (transaction db fn) = fst (fn (Begin db))"
  by (simp add: transaction_def Let_def split: prod.splits)

lemma claim_tx_errors:
  assumes "fst (fst (claim_tx env p r tx)) = Some e"
  shows "e = ErrOptimisticLock \<or> (\<exists>n. e = StorageErr n)"
  using assms
  by (auto simp: claim_tx_def Updates_def Create_def Let_def split: option.splits if_splits)

lemma hit_fun: "(\<lambda>q. ID q = ID p \<and> RemainCount q = RemainCount p) = hit p"
  by (simp add: hit_def fun_eq_iff)

lemma written_fun:
  "written env p = (\<lambda>q. if hit p q
                        then assign (RemainCount p - 1, RemainAmount p) (update_now env) q else q)"
  by (simp add: written_def fun_eq_iff)

lemma claim_tx_conflict:
  assumes "update_fault env = None" and "filter (hit p) (packets (working tx)) = []"
  shows "claim_tx env p r tx =
         ((Some ErrOptimisticLock, r, assign (RemainCount p - 1, RemainAmount p) (update_now env) p),
          tx\<lparr>working := working tx\<lparr>packets := map (written env p) (packets (working tx))\<rparr>\<rparr>)"
  using assms by (simp add: claim_tx_def Updates_def Let_def hit_fun written_fun)

lemma claim_tx_applied:
  assumes "update_fault env = None" and "create_fault env = None"
    and "filter (hit p) (packets (working tx)) \<noteq> []"
    and "RecordID r = 0" and "RecordCreatedAt r = 0" and "RecordUpdatedAt r = 0"
  shows "claim_tx env p r tx =
         ((None, inserted env r, assign (RemainCount p - 1, RemainAmount p) (update_now env) p),
          tx\<lparr>working := \<lparr>packets = map (written env p) (packets (working tx)),
                          records = records (working tx) @ [inserted env r]\<rparr>\<rparr>)"
  using assms
  by (simp add: claim_tx_def Updates_def Create_def Let_def hit_fun written_fun inserted_def)


lemma First_errors: "First f c rows = Inl e \<Longrightarrow> e = ErrRecordNotFound \<or> (\<exists>n. e = StorageErr n)"
  by (auto simp: First_def split: option.splits)

declare Claim.simps(2) [simp del]

lemma Claim_exhausted:
  "RemainCount packet = 0 \<Longrightarrow> Claim (env # envs) db packet userID = Some (Inl ErrExhausted, packet, db)"
  by (simp add: Claim.simps(2))

lemma Claim_found:
  "RemainCount packet \<noteq> 0 \<Longrightarrow>
   FindUserRecord (find_record_fault env) db userID (ID packet) = Inr found \<Longrightarrow>
   Claim (env # envs) db packet userID = Some (Inr found, packet, db)"
  by (simp add: Claim.simps(2))

lemma debit_ID: "ID (debit packet r) = ID packet"
  by (simp add: debit_def)

lemma hit_debit: "hit (debit packet r) = hit packet"
  by (simp add: hit_def debit_def fun_eq_iff)

lemma left_ID: "ID (left env packet) = ID packet"
  by (simp add: left_def)

lemma assign_debit:
  "assign (RemainCount (debit packet (new_record packet userID (random env))) - 1,
           RemainAmount (debit packet (new_record packet userID (random env))))
     (update_now env) (debit packet (new_record packet userID (random env)))
   = left env packet"
  by (simp add: assign_def debit_def new_record_def left_def)

lemma Claim_attempt:
  assumes "RemainCount packet \<noteq> 0"
    and "FindUserRecord (find_record_fault env) db userID (ID packet) = Inl e0"
  defines "r \<equiv> new_record packet userID (random env)"
  defines "out \<equiv> fst (claim_tx env (debit packet r) r (Begin db))"
  shows "Claim (env # envs) db packet userID =
     (case fst out of
        None \<Rightarrow> Some (Inr (fst (snd out)), left env packet, db)
      | Some e \<Rightarrow>
          if e = ErrOptimisticLock then
            (case ctx_done env of
               Some c \<Rightarrow> Some (Inl (ContextErr c), left env packet, db)
             | None \<Rightarrow>
                (case FindPacket (find_packet_fault env) db (ID packet) of
                   Inl e2 \<Rightarrow> Some (Inl e2, left env packet, db)
                 | Inr latest \<Rightarrow>
                     (case Claim envs db latest userID of
                        None \<Rightarrow> None
                      | Some (res, p2, db'') \<Rightarrow> Some (res, left env packet, db''))))
          else Some (Inl e, left env packet, db))"
proof -
  obtain err r' p' tx' where c: "claim_tx env (debit packet r) r (Begin db) = ((err, r', p'), tx')"
    by (metis surj_pair)
  have p': "p' = left env packet"
    using claim_tx_frame(3) [OF c] by (simp add: r_def assign_debit)
  have t: "transaction db (claim_tx env (debit packet r) r) = ((err, r', left env packet), db)"
    using transaction_claim_tx [of db env "debit packet r" r]
      transaction_fst [of db "claim_tx env (debit packet r) r"]
    by (simp add: c p' prod_eq_iff)
  have out: "out = (err, r', left env packet)"
    by (simp add: out_def c p')
  show ?thesis
    using assms(1,2)
    by (simp add: Claim.simps(2) r_def [symmetric] t out Let_def left_ID split: option.splits)
qed


lemma Claim_no_conflict:
  "Claim envs db packet userID = Some (res, p', db') \<Longrightarrow> res \<noteq> Inl ErrOptimisticLock"
proof (induction envs arbitrary: packet res p' db')
  case Nil
  then show ?case by simp
next
  case (Cons env envs)
  show ?case
  proof (cases "RemainCount packet = 0")
    case True
    with Cons.prems show ?thesis by (auto simp: Claim_exhausted)
  next
    case False
    show ?thesis
    proof (cases "FindUserRecord (find_record_fault env) db userID (ID packet)")
      case (Inr found)
      with False Cons.prems show ?thesis by (auto simp: Claim_found)
    next
      case (Inl e0)
      have fp: "FindPacket f db pid \<noteq> Inl ErrOptimisticLock" for f pid
        using First_errors [of f _ "packets db" ErrOptimisticLock] by (auto simp: FindPacket_def)
      from Cons.prems Cons.IH fp show ?thesis
        unfolding Claim_attempt [OF False Inl]
        by (auto split: option.splits if_splits sum.splits)
    qed
  qed
qed




section \<open>Evaluation on the example inputs\<close>

lemmas ex_defs = packet_ex_def db_ex_def env_ex_def record_ex_def db_claimed_def Normal_def Luck_def
lemmas dec_defs = minimumRecordAmount_def Div_def DivRound_def QuoRem_def DivisionPrecision_def
  NewFromInt_def Sub_def Add_def Mul_def RescalePair_def rescale_def New_def Quo_def Rem_def Cmp_def
  cmp_int_def LessThan_def Abs_def Truncate_def Exponent_def Zero_def
lemmas claim_defs = FindUserRecord_def FindPacket_def First_def new_record_def debit_def allocate_def
  claim_tx_def Updates_def Create_def assign_def transaction_def Begin_def RollbackUnlessCommitted_def

section \<open>The claims\<close>

text \<open>
  C1. The claim: when the stored \<^verbatim>\<open>remain_count\<close> equals the snapshot's, the decrement
  and the insertion of the Record are both applied to storage as one unit. \<^verbatim>\<open>transaction\<close>
  never calls \<^verbatim>\<open>Commit\<close>, so the deferred \<^verbatim>\<open>RollbackUnlessCommitted\<close> drops both
  writes. On the example storage the stored count equals the snapshot's, \<^verbatim>\<open>Claim\<close>
  returns a Record for claimant 7 with amount 0.5, and the storage afterwards is the
  storage before: the count is still 2 and there is no Record.
\<close>

theorem Claim_commit_dropped:
  "filter (hit packet_ex) (packets db_ex) = [packet_ex]
   \<and> Claim [env_ex] db_ex packet_ex 7 =
       Some (Inr \<lparr>RecordID = 5, RecordCreatedAt = 21, RecordUpdatedAt = 21, RecordUserID = 7,
                  PacketID = 1, Amount = \<lparr>dvalue = 5000000000000000, dexp = - 16\<rparr>\<rparr>,
             packet_ex\<lparr>UpdatedAt := 20, RemainCount := 1,
                       RemainAmount := \<lparr>dvalue = 5000000000000000, dexp = - 16\<rparr>\<rparr>,
             db_ex)
   \<and> map RemainCount (packets db_ex) = [2] \<and> records db_ex = []"
  by (simp add: Claim.simps(2) hit_def ex_defs claim_defs dec_defs Let_def)

text \<open>
  C2, as the claim states it, fails: with a snapshot whose \<^verbatim>\<open>remain_count\<close> is 0,
  \<^verbatim>\<open>Claim\<close> returns \<^verbatim>\<open>ErrExhausted\<close> in line 83, before the lookup of line 87, although
  claimant 7 has a Record for the packet.
\<close>

theorem Claim_exhausted_before_lookup:
  "FindUserRecord None db_claimed 7 (ID (packet_ex\<lparr>RemainCount := 0\<rparr>)) = Inr record_ex
   \<and> Claim [env_ex] db_claimed (packet_ex\<lparr>RemainCount := 0\<rparr>) 7
       = Some (Inl ErrExhausted, packet_ex\<lparr>RemainCount := 0\<rparr>, db_claimed)"
  by (simp add: Claim.simps(2) ex_defs claim_defs)

text \<open>
  C2, amended: for a claimant who has a Record for the packet, a call of \<^verbatim>\<open>Claim\<close>
  whose lookup meets no storage fault returns, when the snapshot's \<^verbatim>\<open>remain_count\<close> is
  not 0, the first such Record as stored, whatever else the snapshot and the
  environment hold, and \<^verbatim>\<open>ErrExhausted\<close> when it is 0; either way it allocates nothing
  and leaves storage and snapshot as they were. Storage being unchanged, every further
  such call returns the same Record.
\<close>

theorem Claim_returns_existing_record:
  assumes "find_record_fault env = None"
    and "find (\<lambda>r. RecordUserID r = userID \<and> PacketID r = ID packet) (records db) = Some found"
  shows "Claim (env # envs) db packet userID =
           (if RemainCount packet = 0 then Some (Inl ErrExhausted, packet, db)
            else Some (Inr found, packet, db))"
  using assms by (simp add: Claim_exhausted Claim_found FindUserRecord_def First_def)

theorem Claim_returns_existing_record_witness:
  "find_record_fault env_ex = None
   \<and> find (\<lambda>r. RecordUserID r = 7 \<and> PacketID r = ID packet_ex) (records db_claimed) = Some record_ex
   \<and> RemainCount packet_ex \<noteq> 0
   \<and> Claim [env_ex] db_claimed packet_ex 7 = Some (Inr record_ex, packet_ex, db_claimed)
   \<and> Claim [env_ex] db_claimed packet_ex 7 = Claim [env_ex, env_ex] db_claimed packet_ex 7"
  using Claim_returns_existing_record [of env_ex 7 packet_ex db_claimed record_ex "[]"]
    Claim_returns_existing_record [of env_ex 7 packet_ex db_claimed record_ex "[env_ex]"]
  by (simp add: ex_defs)

text \<open>
  C3. The claim: the lucky amount is truncated to two decimal places. Line 111 calls
  \<^verbatim>\<open>Truncate(min.Exponent())\<close>; the exponent of 0.01 is -2, and \<open>Truncate\<close> leaves a
  decimal as it is when the precision is negative. For a packet of 1.00 in two slots
  and the draw 0.25 the amount is 0.01 + 0.25 * 0.98 = 0.2550, not 0.25: it lies
  0.005 above 25 minimum units.
\<close>

theorem allocate_Luck_not_truncated:
  "allocate (packet_ex\<lparr>Mode := Luck\<rparr>) \<lparr>dvalue = 25, dexp = - 2\<rparr> = \<lparr>dvalue = 2550, dexp = - 4\<rparr>
   \<and> Truncate \<lparr>dvalue = 2550, dexp = - 4\<rparr> 2 = \<lparr>dvalue = 25, dexp = - 2\<rparr>
   \<and> dval \<lparr>dvalue = 2550, dexp = - 4\<rparr> = 25 * dval minimumRecordAmount + 1 / 200"
  by (simp add: ex_defs claim_defs dec_defs Let_def dval_def power_int_def power_divide)



text \<open>
  C5. For a snapshot in mode \<open>Normal\<close> or \<open>Luck\<close> with at least one slot left and at
  least the minimum amount per slot left, and a draw in [0, 1): the allocated amount
  is at least the minimum amount and at most the remaining amount, and the remaining
  amount less the allocation, as line 114 computes it, is at least the minimum amount
  times the number of slots left after this one.
\<close>

theorem allocate_within_bounds:
  assumes mode: "Mode packet = Normal \<or> Mode packet = Luck"
    and cnt: "1 \<le> sint (RemainCount packet)"
    and amt: "of_int (sint (RemainCount packet)) * dval minimumRecordAmount
              \<le> dval (RemainAmount packet)"
    and u: "0 \<le> dval rnd" "dval rnd < 1"
  shows "dval minimumRecordAmount \<le> dval (allocate packet rnd)
       \<and> dval (allocate packet rnd) \<le> dval (RemainAmount packet)
       \<and> of_int (sint (RemainCount packet) - 1) * dval minimumRecordAmount
           \<le> dval (Sub (RemainAmount packet) (allocate packet rnd))"
proof -
  define n where "n = sint (RemainCount packet)"
  define x where "x = dval (RemainAmount packet)"
  define a where "a = dval (allocate packet rnd)"
  have amt': "of_int n * (1 / 100) \<le> x"
    using amt by (simp add: n_def x_def dval_minimum)
  have core: "1 / 100 \<le> a \<and> of_int (n - 1) * (1 / 100) \<le> x - a"
  proof (cases "RemainCount packet = 1")
    case True
    then have "a = x" and "n = 1"
      by (simp_all add: a_def x_def n_def allocate_last)
    with amt' show ?thesis by simp
  next
    case False
    with cnt have n2: "2 \<le> n" by (simp add: n_def sint_ge_2)
    note ev = Div_even [OF n2 amt' [unfolded x_def]]
    show ?thesis
    proof (cases "Mode packet = Normal")
      case True
      with False ev show ?thesis
        by (simp add: a_def x_def n_def allocate_Normal)
    next
      case nn: False
      with mode have lk: "Mode packet = Luck" by simp
      define avg where "avg = dval (Div (RemainAmount packet) (NewFromInt n))"
      define mx where "mx = min (x - of_int (n - 1) * (1 / 100)) (2 * avg)"
      have a_eq: "a = 1 / 100 + dval rnd * (mx - 1 / 100)"
        using dval_allocate_Luck [OF False lk, of rnd] sint_pred [OF cnt]
        by (simp add: a_def mx_def avg_def x_def n_def dval_minimum)
      have avg: "1 / 100 \<le> avg" using ev(1) by (simp add: avg_def)
      have "of_int (n - 1) * (1 / 100) + 1 / 100 = (of_int n :: rat) * (1 / 100)"
        by (simp add: field_simps)
      with amt' have m1: "1 / 100 \<le> x - of_int (n - 1) * (1 / 100)" by linarith
      have mx0: "0 \<le> mx - 1 / 100" using avg m1 by (simp add: mx_def min_def)
      have mx1: "mx \<le> x - of_int (n - 1) * (1 / 100)" by (simp add: mx_def)
      have lo: "0 \<le> dval rnd * (mx - 1 / 100)" using u(1) mx0 by simp
      have "dval rnd * (mx - 1 / 100) \<le> 1 * (mx - 1 / 100)"
        using u(2) mx0 by (intro mult_right_mono) simp_all
      then have hi: "a \<le> mx" by (simp add: a_eq)
      have "1 / 100 \<le> a" using lo by (simp add: a_eq)
      with hi mx1 show ?thesis by linarith
    qed
  qed
  have "1 \<le> n" using cnt by (simp add: n_def)
  then have "0 \<le> (of_int (n - 1) :: rat) * (1 / 100)" by simp
  with core have "a \<le> x" by linarith
  with core show ?thesis
    by (simp add: a_def x_def n_def dval_minimum dval_Sub)
qed

theorem allocate_within_bounds_witness:
  "(Mode (packet_ex\<lparr>Mode := Luck\<rparr>) = Normal \<or> Mode (packet_ex\<lparr>Mode := Luck\<rparr>) = Luck)
   \<and> 1 \<le> sint (RemainCount (packet_ex\<lparr>Mode := Luck\<rparr>))
   \<and> of_int (sint (RemainCount (packet_ex\<lparr>Mode := Luck\<rparr>))) * dval minimumRecordAmount
        \<le> dval (RemainAmount (packet_ex\<lparr>Mode := Luck\<rparr>))
   \<and> 0 \<le> dval (random env_ex) \<and> dval (random env_ex) < 1
   \<and> dval minimumRecordAmount \<le> dval (allocate (packet_ex\<lparr>Mode := Luck\<rparr>) (random env_ex))
   \<and> dval (allocate (packet_ex\<lparr>Mode := Luck\<rparr>) (random env_ex))
        \<le> dval (RemainAmount (packet_ex\<lparr>Mode := Luck\<rparr>))
   \<and> of_int (sint (RemainCount (packet_ex\<lparr>Mode := Luck\<rparr>)) - 1) * dval minimumRecordAmount
        \<le> dval (Sub (RemainAmount (packet_ex\<lparr>Mode := Luck\<rparr>))
                    (allocate (packet_ex\<lparr>Mode := Luck\<rparr>) (random env_ex)))"
proof -
  have h: "Mode (packet_ex\<lparr>Mode := Luck\<rparr>) = Normal \<or> Mode (packet_ex\<lparr>Mode := Luck\<rparr>) = Luck"
    "1 \<le> sint (RemainCount (packet_ex\<lparr>Mode := Luck\<rparr>))"
    "of_int (sint (RemainCount (packet_ex\<lparr>Mode := Luck\<rparr>))) * dval minimumRecordAmount
        \<le> dval (RemainAmount (packet_ex\<lparr>Mode := Luck\<rparr>))"
    "0 \<le> dval (random env_ex)" "dval (random env_ex) < 1"
    by (simp_all add: ex_defs dval_def minimumRecordAmount_def power_int_def power_divide)
  from allocate_within_bounds [OF h] h show ?thesis by simp
qed

text \<open>
  C6. When the snapshot's \<^verbatim>\<open>remain_count\<close> is 1, in every mode and for every draw, the
  allocated amount is the snapshot's remaining amount itself, and the remaining amount
  that line 114 leaves is zero.
\<close>

theorem allocate_last_slot:
  assumes "RemainCount packet = 1"
  shows "allocate packet rnd = RemainAmount packet
       \<and> Amount (new_record packet userID rnd) = RemainAmount packet
       \<and> RemainAmount (debit packet (new_record packet userID rnd))
           = \<lparr>dvalue = 0, dexp = dexp (RemainAmount packet)\<rparr>
       \<and> dval (RemainAmount (debit packet (new_record packet userID rnd))) = 0"
  using assms by (simp add: allocate_last new_record_def debit_def Sub_self dval_def)

theorem allocate_last_slot_witness:
  "RemainCount (packet_ex\<lparr>Mode := 0, RemainCount := 1\<rparr>) = 1
   \<and> allocate (packet_ex\<lparr>Mode := 0, RemainCount := 1\<rparr>) (random env_ex) = \<lparr>dvalue = 100, dexp = - 2\<rparr>
   \<and> RemainAmount (debit (packet_ex\<lparr>Mode := 0, RemainCount := 1\<rparr>)
        (new_record (packet_ex\<lparr>Mode := 0, RemainCount := 1\<rparr>) 7 (random env_ex)))
       = \<lparr>dvalue = 0, dexp = - 2\<rparr>"
  using allocate_last_slot [of "packet_ex\<lparr>Mode := 0, RemainCount := 1\<rparr>" "random env_ex" 7]
  by (simp add: ex_defs)

text \<open>
  C7. The claim: every storage error, also one of the Record lookup, is returned to the
  caller at once. Line 87 returns only when the lookup has no error and falls through
  on every error, not only on "record not found". On the example storage the lookup
  fails with storage error 1, and \<^verbatim>\<open>Claim\<close> goes on to allocate and returns a Record.
\<close>

theorem Claim_lookup_fault_swallowed:
  "FindUserRecord (find_record_fault (env_ex\<lparr>find_record_fault := Some 1\<rparr>)) db_ex 7 (ID packet_ex)
     = Inl (StorageErr 1)
   \<and> Claim [env_ex\<lparr>find_record_fault := Some 1\<rparr>] db_ex packet_ex 7 =
       Some (Inr \<lparr>RecordID = 5, RecordCreatedAt = 21, RecordUpdatedAt = 21, RecordUserID = 7,
                  PacketID = 1, Amount = \<lparr>dvalue = 5000000000000000, dexp = - 16\<rparr>\<rparr>,
             packet_ex\<lparr>UpdatedAt := 20, RemainCount := 1,
                       RemainAmount := \<lparr>dvalue = 5000000000000000, dexp = - 16\<rparr>\<rparr>,
             db_ex)"
  by (simp add: Claim.simps(2) ex_defs claim_defs dec_defs Let_def)

text \<open>
  C8. When an attempt finds no Record, its update raises no fault and no stored row
  has the snapshot's id and \<^verbatim>\<open>remain_count\<close>, the attempt ends in \<^verbatim>\<open>ErrOptimisticLock\<close>.
  Then: if \<^verbatim>\<open>ctx.Done()\<close> fires during the wait, \<^verbatim>\<open>Claim\<close> returns \<^verbatim>\<open>ctx.Err()\<close> and no
  Record; otherwise it loads the packet again and returns the error of that load or
  what \<^verbatim>\<open>Claim\<close> on the loaded packet returns; and \<^verbatim>\<open>ErrOptimisticLock\<close> is never what
  \<^verbatim>\<open>Claim\<close> returns. The length of the wait is not part of the model.
\<close>

theorem Claim_conflict_backoff:
  assumes "RemainCount packet \<noteq> 0"
    and "FindUserRecord (find_record_fault env) db userID (ID packet) = Inl e0"
    and "update_fault env = None"
    and "filter (hit packet) (packets db) = []"
  shows "(\<forall>c. ctx_done env = Some c \<longrightarrow>
            Claim (env # envs) db packet userID
              = Some (Inl (ContextErr c), left env packet, db))
       \<and> (ctx_done env = None \<longrightarrow>
            Claim (env # envs) db packet userID
              = (case FindPacket (find_packet_fault env) db (ID packet) of
                   Inl e2 \<Rightarrow> Some (Inl e2, left env packet, db)
                 | Inr latest \<Rightarrow>
                     map_option (\<lambda>(res, p2, db''). (res, left env packet, db''))
                       (Claim envs db latest userID)))
       \<and> (\<forall>p d. Claim (env # envs) db packet userID \<noteq> Some (Inl ErrOptimisticLock, p, d))"
proof -
  define r where "r = new_record packet userID (random env)"
  have "filter (hit (debit packet r)) (packets (working (Begin db))) = []"
    using assms(4) by (simp add: hit_debit Begin_def)
  from claim_tx_conflict [OF assms(3) this, of r]
  have out: "fst (claim_tx env (debit packet r) r (Begin db)) = (Some ErrOptimisticLock, r, left env packet)"
    by (simp add: r_def assign_debit)
  have "\<forall>p d. Claim (env # envs) db packet userID \<noteq> Some (Inl ErrOptimisticLock, p, d)"
    using Claim_no_conflict by blast
  then show ?thesis
    unfolding Claim_attempt [OF assms(1,2)] r_def [symmetric] out
    by (auto split: option.splits sum.splits)
qed

theorem Claim_conflict_backoff_witness:
  "RemainCount packet_ex \<noteq> 0
   \<and> FindUserRecord (find_record_fault env_ex) db_claimed 8 (ID packet_ex) = Inl ErrRecordNotFound
   \<and> update_fault env_ex = None
   \<and> filter (hit packet_ex) (packets db_claimed) = []
   \<and> Claim [env_ex\<lparr>ctx_done := Some Canceled\<rparr>, env_ex] db_claimed packet_ex 8
       = Some (Inl (ContextErr Canceled), packet_ex\<lparr>UpdatedAt := 20, RemainCount := 1,
                       RemainAmount := \<lparr>dvalue = 5000000000000000, dexp = - 16\<rparr>\<rparr>, db_claimed)
   \<and> Claim [env_ex, env_ex] db_claimed packet_ex 8
       = Some (Inr \<lparr>RecordID = 5, RecordCreatedAt = 21, RecordUpdatedAt = 21, RecordUserID = 8,
                    PacketID = 1, Amount = \<lparr>dvalue = 60, dexp = - 2\<rparr>\<rparr>,
               packet_ex\<lparr>UpdatedAt := 20, RemainCount := 1,
                       RemainAmount := \<lparr>dvalue = 5000000000000000, dexp = - 16\<rparr>\<rparr>, db_claimed)"
proof -
  have h: "RemainCount packet_ex \<noteq> 0"
    "FindUserRecord (find_record_fault env_ex) db_claimed 8 (ID packet_ex) = Inl ErrRecordNotFound"
    "update_fault env_ex = None"
    "filter (hit packet_ex) (packets db_claimed) = []"
    by (simp_all add: ex_defs hit_def FindUserRecord_def First_def)
  have h': "FindUserRecord (find_record_fault (env_ex\<lparr>ctx_done := Some Canceled\<rparr>)) db_claimed 8 (ID packet_ex)
      = Inl ErrRecordNotFound"
    "update_fault (env_ex\<lparr>ctx_done := Some Canceled\<rparr>) = None"
    using h by simp_all
  have latest: "Claim [env_ex] db_claimed
        (packet_ex\<lparr>UpdatedAt := 15, RemainCount := 1, RemainAmount := \<lparr>dvalue = 60, dexp = - 2\<rparr>\<rparr>) 8
      = Some (Inr \<lparr>RecordID = 5, RecordCreatedAt = 21, RecordUpdatedAt = 21, RecordUserID = 8,
                   PacketID = 1, Amount = \<lparr>dvalue = 60, dexp = - 2\<rparr>\<rparr>,
              packet_ex\<lparr>UpdatedAt := 20, RemainCount := 0, RemainAmount := \<lparr>dvalue = 0, dexp = - 2\<rparr>\<rparr>,
              db_claimed)"
    by (simp add: Claim.simps(2) ex_defs claim_defs dec_defs assign_def Let_def)
  have d: "left env_ex packet_ex = packet_ex\<lparr>UpdatedAt := 20, RemainCount := 1,
                       RemainAmount := \<lparr>dvalue = 5000000000000000, dexp = - 16\<rparr>\<rparr>"
    "left (env_ex\<lparr>ctx_done := Some Canceled\<rparr>) packet_ex = packet_ex\<lparr>UpdatedAt := 20, RemainCount := 1,
                       RemainAmount := \<lparr>dvalue = 5000000000000000, dexp = - 16\<rparr>\<rparr>"
    by (simp_all add: left_def ex_defs claim_defs dec_defs Let_def)
  have fp: "FindPacket (find_packet_fault env_ex) db_claimed (ID packet_ex)
      = Inr (packet_ex\<lparr>UpdatedAt := 15, RemainCount := 1, RemainAmount := \<lparr>dvalue = 60, dexp = - 2\<rparr>\<rparr>)"
    by (simp add: ex_defs FindPacket_def First_def)
  have cd: "ctx_done env_ex = None" by (simp add: env_ex_def)
  have c1: "Claim [env_ex\<lparr>ctx_done := Some Canceled\<rparr>, env_ex] db_claimed packet_ex 8
       = Some (Inl (ContextErr Canceled), packet_ex\<lparr>UpdatedAt := 20, RemainCount := 1,
                       RemainAmount := \<lparr>dvalue = 5000000000000000, dexp = - 16\<rparr>\<rparr>, db_claimed)"
    using Claim_conflict_backoff [OF h(1) h' h(4), of "[env_ex]"] by (simp add: d)
  have c2: "Claim [env_ex, env_ex] db_claimed packet_ex 8
       = Some (Inr \<lparr>RecordID = 5, RecordCreatedAt = 21, RecordUpdatedAt = 21, RecordUserID = 8,
                    PacketID = 1, Amount = \<lparr>dvalue = 60, dexp = - 2\<rparr>\<rparr>,
               packet_ex\<lparr>UpdatedAt := 20, RemainCount := 1,
                       RemainAmount := \<lparr>dvalue = 5000000000000000, dexp = - 16\<rparr>\<rparr>, db_claimed)"
    using Claim_conflict_backoff [OF h, of "[env_ex]"] by (simp add: cd fp latest d)
  from h c1 c2 show ?thesis by simp
qed

text \<open>
  C9, as the claim states it, fails: line 114 assigns to \<^verbatim>\<open>packet.RemainAmount\<close> of the
  caller's struct, and \<^verbatim>\<open>Updates\<close> in line 123 assigns \<^verbatim>\<open>remain_count - 1\<close> and the time
  of the update to the struct given to \<^verbatim>\<open>Model\<close>, the same struct. After a call on the
  example the snapshot's remaining amount is 0.5, where it was 1.00, and its remaining
  count is 1, where it was 2.
\<close>

theorem Claim_overwrites_snapshot:
  "Claim [env_ex] db_ex packet_ex 7 =
       Some (Inr \<lparr>RecordID = 5, RecordCreatedAt = 21, RecordUpdatedAt = 21, RecordUserID = 7,
                  PacketID = 1, Amount = \<lparr>dvalue = 5000000000000000, dexp = - 16\<rparr>\<rparr>,
             packet_ex\<lparr>UpdatedAt := 20, RemainCount := 1,
                       RemainAmount := \<lparr>dvalue = 5000000000000000, dexp = - 16\<rparr>\<rparr>,
             db_ex)
   \<and> RemainAmount (packet_ex\<lparr>UpdatedAt := 20, RemainCount := 1,
                       RemainAmount := \<lparr>dvalue = 5000000000000000, dexp = - 16\<rparr>\<rparr>) \<noteq> RemainAmount packet_ex
   \<and> RemainCount (packet_ex\<lparr>UpdatedAt := 20, RemainCount := 1,
                       RemainAmount := \<lparr>dvalue = 5000000000000000, dexp = - 16\<rparr>\<rparr>) \<noteq> RemainCount packet_ex
   \<and> RemainAmount packet_ex = \<lparr>dvalue = 100, dexp = - 2\<rparr> \<and> RemainCount packet_ex = 2"
  by (simp add: Claim.simps(2) ex_defs claim_defs dec_defs assign_def Let_def)

text \<open>
  C9, amended: \<^verbatim>\<open>Claim\<close> leaves the snapshot as it was exactly when it returns at the
  exhaustion check or with a Record it has found. On every other return (a new Record,
  a cancelled wait, a storage error, the error of the reload or the result of a retry)
  the snapshot differs from what was passed in, whether or not anything was stored:
  its \<^verbatim>\<open>RemainAmount\<close> is the old one less the amount allocated in the first attempt
  (line 114), its \<^verbatim>\<open>RemainCount\<close> is the old one less 1 and its \<^verbatim>\<open>UpdatedAt\<close> is the time
  of the update (both assigned by \<^verbatim>\<open>Updates\<close>, line 123); every other field is as it
  was.
\<close>

theorem Claim_snapshot_effect:
  assumes "Claim (env # envs) db packet userID = Some (res, p', db')"
  shows "(RemainCount packet = 0 \<or> isl (FindUserRecord (find_record_fault env) db userID (ID packet)) = False
            \<longrightarrow> p' = packet)
       \<and> (RemainCount packet \<noteq> 0 \<and> isl (FindUserRecord (find_record_fault env) db userID (ID packet))
            \<longrightarrow> p' = packet\<lparr>UpdatedAt := update_now env,
                              RemainCount := RemainCount packet - 1,
                              RemainAmount := Sub (RemainAmount packet) (allocate packet (random env))\<rparr>
                \<and> p' \<noteq> packet)"
proof (cases "RemainCount packet = 0")
  case True
  with assms show ?thesis by (simp add: Claim_exhausted)
next
  case False
  show ?thesis
  proof (cases "FindUserRecord (find_record_fault env) db userID (ID packet)")
    case (Inr found)
    then have "\<not> isl (FindUserRecord (find_record_fault env) db userID (ID packet))"
      by simp
    moreover have "p' = packet"
      using assms by (simp add: Claim_found [OF False Inr])
    ultimately show ?thesis by simp
  next
    case (Inl e0)
    have p': "p' = left env packet"
      using assms unfolding Claim_attempt [OF False Inl]
      by (auto split: option.splits if_splits sum.splits)
    have "RemainCount (left env packet) \<noteq> RemainCount packet"
      by (simp add: left_def)
    then have "left env packet \<noteq> packet" by auto
    with p' False Inl show ?thesis by (simp add: left_def)
  qed
qed

theorem Claim_snapshot_effect_witness:
  "Claim [env_ex] db_ex packet_ex 7 =
       Some (Inr \<lparr>RecordID = 5, RecordCreatedAt = 21, RecordUpdatedAt = 21, RecordUserID = 7,
                  PacketID = 1, Amount = \<lparr>dvalue = 5000000000000000, dexp = - 16\<rparr>\<rparr>,
             packet_ex\<lparr>UpdatedAt := 20, RemainCount := 1,
                       RemainAmount := \<lparr>dvalue = 5000000000000000, dexp = - 16\<rparr>\<rparr>,
             db_ex)
   \<and> RemainCount packet_ex \<noteq> 0
   \<and> isl (FindUserRecord (find_record_fault env_ex) db_ex 7 (ID packet_ex))
   \<and> packet_ex\<lparr>UpdatedAt := 20, RemainCount := 1,
                       RemainAmount := \<lparr>dvalue = 5000000000000000, dexp = - 16\<rparr>\<rparr>
       = packet_ex\<lparr>UpdatedAt := update_now env_ex, RemainCount := RemainCount packet_ex - 1,
                    RemainAmount := Sub (RemainAmount packet_ex) (allocate packet_ex (random env_ex))\<rparr>
   \<and> packet_ex\<lparr>UpdatedAt := 20, RemainCount := 1,
                       RemainAmount := \<lparr>dvalue = 5000000000000000, dexp = - 16\<rparr>\<rparr> \<noteq> packet_ex"
proof -
  have c: "Claim [env_ex] db_ex packet_ex 7 =
       Some (Inr \<lparr>RecordID = 5, RecordCreatedAt = 21, RecordUpdatedAt = 21, RecordUserID = 7,
                  PacketID = 1, Amount = \<lparr>dvalue = 5000000000000000, dexp = - 16\<rparr>\<rparr>,
             packet_ex\<lparr>UpdatedAt := 20, RemainCount := 1,
                       RemainAmount := \<lparr>dvalue = 5000000000000000, dexp = - 16\<rparr>\<rparr>,
             db_ex)"
    by (simp add: Claim.simps(2) ex_defs claim_defs dec_defs assign_def Let_def)
  have h: "RemainCount packet_ex \<noteq> 0"
    "isl (FindUserRecord (find_record_fault env_ex) db_ex 7 (ID packet_ex))"
    by (simp_all add: ex_defs FindUserRecord_def First_def)
  from Claim_snapshot_effect [OF c] h
  have k: "packet_ex\<lparr>UpdatedAt := 20, RemainCount := 1,
                       RemainAmount := \<lparr>dvalue = 5000000000000000, dexp = - 16\<rparr>\<rparr>
       = packet_ex\<lparr>UpdatedAt := update_now env_ex, RemainCount := RemainCount packet_ex - 1,
                    RemainAmount := Sub (RemainAmount packet_ex) (allocate packet_ex (random env_ex))\<rparr>
   \<and> packet_ex\<lparr>UpdatedAt := 20, RemainCount := 1,
                       RemainAmount := \<lparr>dvalue = 5000000000000000, dexp = - 16\<rparr>\<rparr> \<noteq> packet_ex"
    by blast
  from c h k show ?thesis by blast
qed

text \<open>
  C10. For a snapshot with at least two slots left whose mode is neither \<open>Normal\<close> nor
  \<open>Luck\<close>, no case of the \<^verbatim>\<open>switch\<close> applies: the amount stays the zero decimal, below
  the minimum amount; line 114 leaves the value of the remaining amount as it was; and
  the transaction, when its statements raise no fault and a stored row has the
  snapshot's id and count, writes the count less 1 and the same remaining amount into
  that row and inserts the Record with amount 0.
\<close>

theorem allocate_unknown_mode:
  fixes userID :: int64 and env :: Env
  assumes "Mode packet \<noteq> Normal" and "Mode packet \<noteq> Luck" and "2 \<le> sint (RemainCount packet)"
  defines "r \<equiv> new_record packet userID (random env)"
  shows "allocate packet (random env) = Zero
       \<and> Amount r = Zero
       \<and> dval (Amount r) < dval minimumRecordAmount
       \<and> dval (RemainAmount (debit packet r)) = dval (RemainAmount packet)
       \<and> sint (RemainCount packet - 1) = sint (RemainCount packet) - 1
       \<and> (update_fault env = None \<and> create_fault env = None
            \<and> filter (hit packet) (packets db) \<noteq> [] \<longrightarrow>
          claim_tx env (debit packet r) r (Begin db) =
            ((None, inserted env r, left env packet),
             (Begin db)\<lparr>working :=
                \<lparr>packets = map (\<lambda>p. if hit packet p
                                      then p\<lparr>UpdatedAt := update_now env,
                                             RemainCount := RemainCount packet - 1,
                                             RemainAmount := Sub (RemainAmount packet) Zero\<rparr>
                                      else p) (packets db),
                 records = records db @ [inserted env r]\<rparr>\<rparr>)
          \<and> Amount (inserted env r) = Zero)"
proof -
  have ne: "RemainCount packet \<noteq> 1"
    using assms(3) by auto
  have a: "allocate packet (random env) = Zero"
    using assms(1,2) ne by (simp add: allocate_def)
  have r: "Amount r = Zero" "RecordID r = 0" "RecordCreatedAt r = 0" "RecordUpdatedAt r = 0"
    by (simp_all add: r_def new_record_def a)
  have lt: "dval (Amount r) < dval minimumRecordAmount"
    by (simp add: r dval_minimum) (simp add: dval_def Zero_def)
  have same: "dval (RemainAmount (debit packet r)) = dval (RemainAmount packet)"
    by (simp add: debit_def dval_Sub r) (simp add: dval_def Zero_def)
  have dec: "sint (RemainCount packet - 1) = sint (RemainCount packet) - 1"
    using assms(3) by (intro sint_pred) simp
  have w: "written env (debit packet r) = (\<lambda>p. if hit packet p
                                      then p\<lparr>UpdatedAt := update_now env,
                                             RemainCount := RemainCount packet - 1,
                                             RemainAmount := Sub (RemainAmount packet) Zero\<rparr>
                                      else p)"
    by (simp add: written_def hit_debit assign_def fun_eq_iff) (simp add: debit_def r)
  have tx: "claim_tx env (debit packet r) r (Begin db) =
            ((None, inserted env r, left env packet),
             (Begin db)\<lparr>working :=
                \<lparr>packets = map (written env (debit packet r)) (packets db),
                 records = records db @ [inserted env r]\<rparr>\<rparr>)"
    if "update_fault env = None" "create_fault env = None" "filter (hit packet) (packets db) \<noteq> []"
    using claim_tx_applied [OF that(1,2) _ r(2,3,4), of "debit packet r" "Begin db"] that(3)
    by (simp add: hit_debit Begin_def r_def assign_debit)
  have ia: "Amount (inserted env r) = Zero"
    by (simp add: inserted_def r)
  from a r(1) lt same dec tx ia show ?thesis by (simp add: w)
qed

theorem allocate_unknown_mode_witness:
  "Mode (packet_ex\<lparr>Mode := 0\<rparr>) \<noteq> Normal \<and> Mode (packet_ex\<lparr>Mode := 0\<rparr>) \<noteq> Luck
   \<and> 2 \<le> sint (RemainCount (packet_ex\<lparr>Mode := 0\<rparr>))
   \<and> update_fault env_ex = None \<and> create_fault env_ex = None
   \<and> filter (hit (packet_ex\<lparr>Mode := 0\<rparr>)) (packets \<lparr>packets = [packet_ex\<lparr>Mode := 0\<rparr>], records = []\<rparr>) \<noteq> []
   \<and> allocate (packet_ex\<lparr>Mode := 0\<rparr>) (random env_ex) = Zero
   \<and> working (snd (claim_tx env_ex
        (debit (packet_ex\<lparr>Mode := 0\<rparr>) (new_record (packet_ex\<lparr>Mode := 0\<rparr>) 7 (random env_ex)))
        (new_record (packet_ex\<lparr>Mode := 0\<rparr>) 7 (random env_ex))
        (Begin \<lparr>packets = [packet_ex\<lparr>Mode := 0\<rparr>], records = []\<rparr>)))
      = \<lparr>packets = [packet_ex\<lparr>UpdatedAt := 20, Mode := 0, RemainCount := 1\<rparr>],
         records = [\<lparr>RecordID = 5, RecordCreatedAt = 21, RecordUpdatedAt = 21, RecordUserID = 7,
                     PacketID = 1, Amount = \<lparr>dvalue = 0, dexp = 0\<rparr>\<rparr>]\<rparr>"
proof -
  have h: "Mode (packet_ex\<lparr>Mode := 0\<rparr>) \<noteq> Normal" "Mode (packet_ex\<lparr>Mode := 0\<rparr>) \<noteq> Luck"
    "2 \<le> sint (RemainCount (packet_ex\<lparr>Mode := 0\<rparr>))"
    by (simp_all add: ex_defs)
  have g: "update_fault env_ex = None" "create_fault env_ex = None"
    "filter (hit (packet_ex\<lparr>Mode := 0\<rparr>)) (packets \<lparr>packets = [packet_ex\<lparr>Mode := 0\<rparr>], records = []\<rparr>) \<noteq> []"
    by (simp_all add: ex_defs hit_def)
  note T = allocate_unknown_mode [OF h, of env_ex 7 "\<lparr>packets = [packet_ex\<lparr>Mode := 0\<rparr>], records = []\<rparr>"]
  from T have a: "allocate (packet_ex\<lparr>Mode := 0\<rparr>) (random env_ex) = Zero"
    by simp
  from T g have "working (snd (claim_tx env_ex
        (debit (packet_ex\<lparr>Mode := 0\<rparr>) (new_record (packet_ex\<lparr>Mode := 0\<rparr>) 7 (random env_ex)))
        (new_record (packet_ex\<lparr>Mode := 0\<rparr>) 7 (random env_ex))
        (Begin \<lparr>packets = [packet_ex\<lparr>Mode := 0\<rparr>], records = []\<rparr>)))
      = \<lparr>packets = map (\<lambda>p. if hit (packet_ex\<lparr>Mode := 0\<rparr>) p
                                      then p\<lparr>UpdatedAt := update_now env_ex,
                                             RemainCount := RemainCount (packet_ex\<lparr>Mode := 0\<rparr>) - 1,
                                             RemainAmount := Sub (RemainAmount (packet_ex\<lparr>Mode := 0\<rparr>)) Zero\<rparr>
                                      else p) [packet_ex\<lparr>Mode := 0\<rparr>],
         records = [inserted env_ex (new_record (packet_ex\<lparr>Mode := 0\<rparr>) 7 (random env_ex))]\<rparr>"
    by simp
  also have "\<dots> = \<lparr>packets = [packet_ex\<lparr>UpdatedAt := 20, Mode := 0, RemainCount := 1\<rparr>],
         records = [\<lparr>RecordID = 5, RecordCreatedAt = 21, RecordUpdatedAt = 21, RecordUserID = 7,
                     PacketID = 1, Amount = \<lparr>dvalue = 0, dexp = 0\<rparr>\<rparr>]\<rparr>"
    by (simp add: new_record_def inserted_def a hit_def)
       (simp add: ex_defs Zero_def Sub_def RescalePair_def rescale_def)
  finally show ?thesis using h g a by simp
qed

end
